theory Spec2Isabelle
  imports Complex_Main "HOL-Library.Word"
begin

section \<open>Data model of the frontend\<close>

text \<open>
  The pages import their types from \<^verbatim>\<open>../types\<close>. The records below carry the fields the
  pages read; \<open>ident\<close> is the \<^verbatim>\<open>id\<close> of an artwork. A JavaScript string that is only
  compared or copied is a \<^typ>\<open>string\<close>; the comment text, which is trimmed, is a list of
  UTF-16 code units. Counters are integers.
\<close>

type_synonym utf16 = "16 word list"

record Comment =
  comment_id :: int
  username :: string
  content :: utf16

text \<open>
  \<^verbatim>\<open>condition_value\<close> is an object with one optional key per condition type; a key that is
  absent reads as \<^verbatim>\<open>undefined\<close>, here \<^const>\<open>None\<close>.
\<close>

record ConditionValue =
  reveal_at :: "string option"
  count :: "int option"
  comment_count :: "int option"

record RevealCondition =
  condition_type :: string
  condition_value :: ConditionValue

record Artwork =
  ident :: int
  is_revealed :: bool
  view_count :: int
  comments :: "Comment list"
  reveal_conditions :: "RevealCondition list"
  created_at :: string

text \<open>The outcome of an awaited request: the promise resolves, or it rejects with a value
  that is an \<^verbatim>\<open>Error\<close> carrying a message (\<open>Some\<close>) or something else (\<open>None\<close>).\<close>

datatype 'a response = Resolved 'a | Rejected "string option"

section \<open>JavaScript numbers\<close>

text \<open>
  JavaScript numbers are IEEE doubles and dates come from the host. The arithmetic of the
  dashboard is therefore kept symbolic: the host operations are the fields of a record
  that every function computing with numbers takes as its first argument, so that the
  definitions follow the source expression by expression and hold for the host's rounding.
  \<open>js_num n\<close> is the number whose value is the integer \<open>n\<close>; \<open>js_nan\<close> is what
  \<^verbatim>\<open>undefined\<close> becomes in arithmetic; \<open>js_getTime s\<close> is
  \<^verbatim>\<open>new Date(s).getTime()\<close>.
\<close>

record 'n js_number =
  js_num :: "int \<Rightarrow> 'n"
  js_nan :: 'n
  js_add :: "'n \<Rightarrow> 'n \<Rightarrow> 'n"
  js_sub :: "'n \<Rightarrow> 'n \<Rightarrow> 'n"
  js_div :: "'n \<Rightarrow> 'n \<Rightarrow> 'n"
  js_mul :: "'n \<Rightarrow> 'n \<Rightarrow> 'n"
  js_floor :: "'n \<Rightarrow> 'n"
  js_min :: "'n \<Rightarrow> 'n \<Rightarrow> 'n"
  js_getTime :: "string option \<Rightarrow> 'n"

definition js_of :: "'n js_number \<Rightarrow> int option \<Rightarrow> 'n" where
  "js_of J v = (case v of None \<Rightarrow> js_nan J | Some n \<Rightarrow> js_num J n)"


section \<open>Dashboard: statistics and the delete handler\<close>

text \<open>The four totals are numbers of the host.\<close>

record 'n Stats =
  totalArtworks :: 'n
  totalViews :: 'n
  totalReveals :: 'n
  totalComments :: 'n

record 'n Dashboard =
  artworks :: "Artwork list"
  stats :: "'n Stats"
  error :: "string option"



section \<open>Dashboard: reveal-condition summary and completion percentage\<close>

text \<open>\<^verbatim>\<open>artwork.reveal_conditions[0]\<close>: \<^verbatim>\<open>undefined\<close> on an empty array.\<close>

definition first_condition :: "Artwork \<Rightarrow> RevealCondition option" where
  "first_condition artwork =
     (case reveal_conditions artwork of [] \<Rightarrow> None | condition # _ \<Rightarrow> Some condition)"

text \<open>
  The rendered summary. A label is the list of the pieces of its template literal; a date
  piece stands for \<^verbatim>\<open>new Date(s).toLocaleDateString()\<close>.
\<close>

datatype piece = StrPiece string | NumPiece "int option" | LocaleDatePiece "string option"

datatype 'n element =
    Text string
  | Chip "piece list"
  | BoxChipProgress "piece list" 'n

definition formatRevealCondition :: "'n js_number \<Rightarrow> Artwork \<Rightarrow> 'n element" where
  "formatRevealCondition J artwork =
     (if is_revealed artwork then Chip [StrPiece ''Revealed'']
      else case first_condition artwork of
        None \<Rightarrow> Text ''Unknown''
      | Some condition \<Rightarrow>
          if condition_type condition = ''time'' then
            Chip [StrPiece ''Reveals on '',
                  LocaleDatePiece (reveal_at (condition_value condition))]
          else if condition_type condition = ''view_count'' then
            (let progress =
                   js_mul J (js_div J (js_num J (view_count artwork))
                                      (js_of J (count (condition_value condition))))
                            (js_num J 100)
             in BoxChipProgress
                  [NumPiece (Some (view_count artwork)), StrPiece ''/'',
                   NumPiece (count (condition_value condition)), StrPiece '' views'']
                  (js_min J progress (js_num J 100)))
          else if condition_type condition = ''interactive'' then
            (let commentProgress =
                   js_mul J (js_div J (js_num J (int (length (comments artwork))))
                                      (js_of J (comment_count (condition_value condition))))
                            (js_num J 100)
             in BoxChipProgress
                  [NumPiece (Some (int (length (comments artwork)))), StrPiece ''/'',
                   NumPiece (comment_count (condition_value condition)), StrPiece '' comments'']
                  (js_min J commentProgress (js_num J 100)))
          else Text ''Custom condition'')"

text \<open>The completion percentage of one row of the analytics table; \<open>now\<close> is
  \<^verbatim>\<open>Date.now()\<close>. A condition type outside the three cases leaves the initial 0.\<close>

definition completionPercentage :: "'n js_number \<Rightarrow> 'n \<Rightarrow> Artwork \<Rightarrow> 'n" where
  "completionPercentage J now artwork =
     (if is_revealed artwork then js_num J 100
      else case first_condition artwork of
        None \<Rightarrow> js_num J 0
      | Some condition \<Rightarrow>
          if condition_type condition = ''time'' then
            (let totalDuration =
                   js_sub J (js_getTime J (reveal_at (condition_value condition)))
                            (js_getTime J (Some (created_at artwork)));
                 elapsedDuration = js_sub J now (js_getTime J (Some (created_at artwork)))
             in js_min J (js_num J 100)
                  (js_floor J (js_mul J (js_div J elapsedDuration totalDuration) (js_num J 100))))
          else if condition_type condition = ''view_count'' then
            js_min J (js_num J 100)
              (js_floor J
                (js_mul J (js_div J (js_num J (view_count artwork))
                                    (js_of J (count (condition_value condition))))
                          (js_num J 100)))
          else if condition_type condition = ''interactive'' then
            js_min J (js_num J 100)
              (js_floor J
                (js_mul J (js_div J (js_num J (int (length (comments artwork))))
                                    (js_of J (comment_count (condition_value condition))))
                          (js_num J 100)))
          else js_num J 0)"

section \<open>CommentSection: submitting a comment\<close>

text \<open>
  \<^verbatim>\<open>String.prototype.trim\<close> removes white space and line terminators from both ends:
  TAB, LF, VT, FF, CR, SP, NBSP, the Unicode space separators and the byte order mark.
\<close>

definition isWhiteSpace :: "16 word \<Rightarrow> bool" where
  "isWhiteSpace c =
     (c \<in> {0x0009, 0x000A, 0x000B, 0x000C, 0x000D, 0x0020, 0x00A0, 0x1680,
            0x2028, 0x2029, 0x202F, 0x205F, 0x3000, 0xFEFF}
      \<or> (0x2000 \<le> c \<and> c \<le> 0x200A))"

definition trim :: "utf16 \<Rightarrow> utf16" where
  "trim s = rev (dropWhile isWhiteSpace (rev (dropWhile isWhiteSpace s)))"

record CommentCreate =
  artwork_id :: int
  content :: utf16

record CommentSection =
  commentText :: utf16
  isSubmitting :: bool
  error :: "string option"
  commentAdded :: bool

text \<open>
  \<^verbatim>\<open>handleSubmit\<close> of the comment form. The arguments are the \<^verbatim>\<open>artworkId\<close> prop,
  whether the \<^verbatim>\<open>onCommentAdded\<close> prop is given, and the outcome of the request. The result
  is the state after the handler has run, the requests sent to
  \<^verbatim>\<open>apiService.artworks.addComment\<close>, and the comments handed to the callback.
\<close>

definition CommentSection_handleSubmit ::
  "int \<Rightarrow> bool \<Rightarrow> Comment response \<Rightarrow> CommentSection
     \<Rightarrow> CommentSection \<times> (int \<times> CommentCreate) list \<times> Comment list" where
  "CommentSection_handleSubmit artworkId hasCallback resp st =
     (if trim (commentText st) = [] then (st, [], [])
      else
        (let st1 = st\<lparr>isSubmitting := True, error := None, commentAdded := False\<rparr>;
             commentData = \<lparr>artwork_id = artworkId, content = trim (commentText st)\<rparr>
         in case resp of
              Resolved newComment \<Rightarrow>
                (st1\<lparr>commentText := [], commentAdded := True, isSubmitting := False\<rparr>,
                 [(artworkId, commentData)],
                 if hasCallback then [newComment] else [])
            | Rejected err \<Rightarrow>
                (st1\<lparr>error := Some (case err of
                                     Some message \<Rightarrow> message
                                   | None \<Rightarrow> ''Failed to add comment. Please try again.''),
                     isSubmitting := False\<rparr>,
                 [(artworkId, commentData)],
                 [])))"

section \<open>Upload: default conditions, validation and submission\<close>

text \<open>
  \<^verbatim>\<open>initializeCondition\<close> reads the clock and computes with the host's \<^verbatim>\<open>Date\<close>. A date
  is its time value, the milliseconds since the epoch in UTC. What depends on the host is
  the offset of local time (\<open>localTZA t True\<close> for a UTC time value \<open>t\<close>,
  \<open>localTZA t False\<close> for a local one), the calendar's day of the month of a time value
  (\<open>dateFromTime\<close>) and the rendering \<^verbatim>\<open>YYYY-MM-DDTHH:mm:ss.sssZ\<close> in UTC
  (\<open>toISOString\<close>, which throws on an invalid date only, and the clock never yields one).
\<close>

record js_date =
  localTZA :: "int \<Rightarrow> bool \<Rightarrow> int"
  dateFromTime :: "int \<Rightarrow> int"
  toISOString :: "int \<Rightarrow> string"

definition msPerDay :: int where
  "msPerDay = 86400000"

definition LocalTime :: "js_date \<Rightarrow> int \<Rightarrow> int" where
  "LocalTime D t = t + localTZA D t True"

definition UTC :: "js_date \<Rightarrow> int \<Rightarrow> int" where
  "UTC D t = t - localTZA D t False"

text \<open>\<^verbatim>\<open>getDate()\<close> is the day of the month in local time.\<close>

definition getDate :: "js_date \<Rightarrow> int \<Rightarrow> int" where
  "getDate D t = dateFromTime D (LocalTime D t)"

text \<open>
  \<^verbatim>\<open>setDate(dt)\<close> replaces the day of the month of the local time and converts back:
  with \<open>t\<close> the local time, the new local time is
  \<^verbatim>\<open>MakeDate(MakeDay(YearFromTime(t), MonthFromTime(t), dt), TimeWithinDay(t))\<close>.
  \<^verbatim>\<open>MakeDay\<close> counts the days from the first of the month of \<open>t\<close>, also beyond the
  month's end, so the new local time is \<open>t\<close> moved by \<open>dt - dateFromTime t\<close> days.
\<close>

definition setDate :: "js_date \<Rightarrow> int \<Rightarrow> int \<Rightarrow> int" where
  "setDate D t dt =
     UTC D (LocalTime D t + (dt - dateFromTime D (LocalTime D t)) * msPerDay)"

text \<open>\<open>now\<close> is the time value of \<^verbatim>\<open>new Date()\<close> at the call; \<^verbatim>\<open>slice(0, 16)\<close> keeps
  the first 16 characters of the rendering, that is the rendering cut to minutes.\<close>

definition initializeCondition :: "js_date \<Rightarrow> int \<Rightarrow> string \<Rightarrow> RevealCondition" where
  "initializeCondition D now type =
     (if type = ''time'' then
        (let date = setDate D now (getDate D now + 7)
         in \<lparr> condition_type = ''time'',
              condition_value = \<lparr> reveal_at = Some (take 16 (toISOString D date)),
                                  count = None, comment_count = None \<rparr> \<rparr>)
      else if type = ''view_count'' then
        \<lparr> condition_type = ''view_count'',
          condition_value = \<lparr> reveal_at = None, count = Some 100, comment_count = None \<rparr> \<rparr>
      else if type = ''interactive'' then
        \<lparr> condition_type = ''interactive'',
          condition_value = \<lparr> reveal_at = None, count = None, comment_count = Some 10 \<rparr> \<rparr>
      else
        \<lparr> condition_type = ''time'',
          condition_value = \<lparr> reveal_at = Some (take 16 (toISOString D now)),
                              count = None, comment_count = None \<rparr> \<rparr>)"

text \<open>
  The form values are untyped in the source (\<^verbatim>\<open>values: any\<close>). A condition of the form
  may lack either field; the files are \<^verbatim>\<open>null\<close> until one is selected. The body of the
  create request, \<^verbatim>\<open>ArtworkCreate\<close>, has the same six fields as the form values and is
  filled field by field from them, so one record serves for both.
\<close>

text \<open>A selected file, with its name and its media type.\<close>

datatype File = File string string

record FormCondition =
  condition_type :: "string option"
  condition_value :: "ConditionValue option"

record ArtworkCreate =
  title :: string
  description :: string
  content_type :: string
  artwork_file :: "File option"
  placeholder_image :: "File option"
  reveal_conditions :: "FormCondition list"

text \<open>
  The tests of the validation library that \<^verbatim>\<open>uploadSchema\<close> chains. Each yields the
  messages of its failure. Formik hands the schema the values with every empty string
  replaced by \<^verbatim>\<open>undefined\<close>; \<^verbatim>\<open>required\<close> fails on an absent value, while
  \<^verbatim>\<open>max\<close> and \<^verbatim>\<open>oneOf\<close> pass it.
\<close>

definition blank_to_undefined :: "string \<Rightarrow> string option" where
  "blank_to_undefined s = (if s = [] then None else Some s)"

definition required :: "'a option \<Rightarrow> string \<Rightarrow> string list" where
  "required v message = (case v of None \<Rightarrow> [message] | Some _ \<Rightarrow> [])"

definition max_length :: "nat \<Rightarrow> string option \<Rightarrow> string \<Rightarrow> string list" where
  "max_length n v message =
     (case v of None \<Rightarrow> [] | Some s \<Rightarrow> if length s \<le> n then [] else [message])"

definition oneOf :: "string list \<Rightarrow> string option \<Rightarrow> string \<Rightarrow> string list" where
  "oneOf allowed v message =
     (case v of None \<Rightarrow> [] | Some s \<Rightarrow> if s \<in> set allowed then [] else [message])"

definition min_items :: "nat \<Rightarrow> 'a list \<Rightarrow> string \<Rightarrow> string list" where
  "min_items n xs message = (if n \<le> length xs then [] else [message])"

definition condition_errors :: "FormCondition \<Rightarrow> string list" where
  "condition_errors c =
     (let condition_type_value =
            (case condition_type c of None \<Rightarrow> None | Some s \<Rightarrow> blank_to_undefined s)
      in required condition_type_value ''Condition type is required''
         @ oneOf [''time'', ''view_count'', ''interactive''] condition_type_value
             ''Invalid condition type''
         @ required (condition_value c) ''Condition value is required'')"

text \<open>\<^verbatim>\<open>uploadSchema\<close>: the messages of all failed tests; the values are valid when
  there is none. The order of the messages carries no meaning.\<close>

definition uploadSchema :: "ArtworkCreate \<Rightarrow> string list" where
  "uploadSchema values =
     required (blank_to_undefined (title values)) ''Title is required''
     @ max_length 255 (blank_to_undefined (title values))
         ''Title must be less than 255 characters''
     @ max_length 1000 (blank_to_undefined (description values))
         ''Description must be less than 1000 characters''
     @ required (blank_to_undefined (content_type values)) ''Content type is required''
     @ required (artwork_file values) ''Artwork file is required''
     @ concat (map condition_errors (reveal_conditions values))
     @ min_items 1 (reveal_conditions values) ''At least one reveal condition is required''"

record Upload =
  uploading :: bool
  uploadSuccess :: bool
  uploadError :: "string option"
  artwork :: "File option"
  artworkPreview :: "string option"
  placeholder :: "File option"
  placeholderPreview :: "string option"

text \<open>
  \<^verbatim>\<open>handleSubmit\<close> of the upload form: the state after the handler has run and the bodies
  handed to \<^verbatim>\<open>apiService.artworks.create\<close>.
\<close>

definition Upload_handleSubmit ::
  "unit response \<Rightarrow> ArtworkCreate \<Rightarrow> Upload \<Rightarrow> Upload \<times> ArtworkCreate list" where
  "Upload_handleSubmit resp values st =
     (let st1 = st\<lparr>uploading := True, uploadSuccess := False, uploadError := None\<rparr>;
          artworkData =
            \<lparr> title = title values,
              description = description values,
              content_type = content_type values,
              artwork_file = artwork_file values,
              placeholder_image = placeholder_image values,
              reveal_conditions = reveal_conditions values \<rparr>
      in case resp of
           Resolved _ \<Rightarrow>
             (st1\<lparr>uploadSuccess := True, artwork := None, artworkPreview := None,
                  placeholder := None, placeholderPreview := None, uploading := False\<rparr>,
              [artworkData])
         | Rejected err \<Rightarrow>
             (st1\<lparr>uploadError := Some (case err of
                                         Some message \<Rightarrow> message
                                       | None \<Rightarrow> ''Failed to upload artwork. Please try again.''),
                  uploading := False\<rparr>,
              [artworkData]))"

text \<open>
  Submitting the form: Formik validates the values against \<^verbatim>\<open>validationSchema\<close> and
  calls \<^verbatim>\<open>onSubmit\<close> only when validation reports no error.
\<close>

definition Upload_submitForm ::
  "unit response \<Rightarrow> ArtworkCreate \<Rightarrow> Upload \<Rightarrow> Upload \<times> ArtworkCreate list" where
  "Upload_submitForm resp values st =
     (if uploadSchema values = [] then Upload_handleSubmit resp values st else (st, []))"

section \<open>EditArtwork: the update request\<close>

text \<open>The body of the update request, built by \<^verbatim>\<open>handleSubmit\<close> from the form values.
  The form has the same three fields.\<close>

record ArtworkUpdate =
  title :: string
  description :: string
  placeholder_image :: "File option"

record EditArtwork =
  saving :: bool
  success :: bool
  error :: "string option"

definition EditArtwork_handleSubmit ::
  "int \<Rightarrow> unit response \<Rightarrow> ArtworkUpdate \<Rightarrow> EditArtwork
     \<Rightarrow> EditArtwork \<times> (int \<times> ArtworkUpdate) list" where
  "EditArtwork_handleSubmit artworkId resp values st =
     (let st1 = st\<lparr>saving := True, success := False, error := None\<rparr>;
          artworkData =
            \<lparr> title = title values,
              description = description values,
              placeholder_image = placeholder_image values \<rparr>
      in case resp of
           Resolved _ \<Rightarrow> (st1\<lparr>success := True, saving := False\<rparr>, [(artworkId, artworkData)])
         | Rejected err \<Rightarrow>
             (st1\<lparr>error := Some (case err of
                                    Some message \<Rightarrow> message
                                  | None \<Rightarrow> ''Failed to update artwork. Please try again.''),
                  saving := False\<rparr>,
              [(artworkId, artworkData)]))"

section \<open>The backend: condition evaluator, reveal transition and notifier\<close>

text \<open>
  The backend (models, views and the event handler) is not among the sources. Every
  definition of this section is written from the specification.
\<close>

subsection \<open>Condition evaluator\<close>

text \<open>Modelled from the spec: the metrics handed to the evaluator (section 4.1: current
  wall-clock time, current view count, current comment count). The evaluator's code is
  missing.\<close>

record Metrics =
  current_time :: int
  current_view_count :: int
  current_comment_count :: int

text \<open>Modelled from the spec: the reveal condition as a closed sum over the three tags,
  each with its threshold: an absolute timestamp, a view threshold, a comment threshold
  (sections 3 and 9). The backend's model is missing.\<close>

datatype Condition =
    TimeCondition int
  | ViewCountCondition int
  | InteractiveCondition int

text \<open>Modelled from the spec: the time variant, true iff the current time has reached the
  configured reveal timestamp (section 4.1). The backend's condition check is missing.\<close>

definition evaluate_time :: "Metrics \<Rightarrow> int \<Rightarrow> bool" where
  "evaluate_time m reveal_timestamp = (reveal_timestamp \<le> current_time m)"

text \<open>Modelled from the spec: the view-count variant, true iff the current view count has
  reached the configured threshold (section 4.1). The backend's condition check is
  missing.\<close>

definition evaluate_view_count :: "Metrics \<Rightarrow> int \<Rightarrow> bool" where
  "evaluate_view_count m threshold = (threshold \<le> current_view_count m)"

text \<open>Modelled from the spec: the interactive variant, true iff the current comment count
  has reached the configured comment threshold (section 4.1). The backend's condition check
  is missing.\<close>

definition evaluate_interactive :: "Metrics \<Rightarrow> int \<Rightarrow> bool" where
  "evaluate_interactive m comment_threshold = (comment_threshold \<le> current_comment_count m)"

text \<open>Modelled from the spec: \<^verbatim>\<open>evaluate(artwork_metrics, condition) -> bool\<close>, one
  evaluation function per variant, dispatched by tag (sections 4.1 and 9). The backend's
  condition check is missing.\<close>

fun evaluate :: "Metrics \<Rightarrow> Condition \<Rightarrow> bool" where
  "evaluate m (TimeCondition reveal_timestamp) = evaluate_time m reveal_timestamp"
| "evaluate m (ViewCountCondition threshold) = evaluate_view_count m threshold"
| "evaluate m (InteractiveCondition comment_threshold) = evaluate_interactive m comment_threshold"

text \<open>Modelled from the spec: the metric that a condition's tag selects (section 4.1).
  The backend's condition check is missing.\<close>

fun selected_metric :: "Metrics \<Rightarrow> Condition \<Rightarrow> int" where
  "selected_metric m (TimeCondition _) = current_time m"
| "selected_metric m (ViewCountCondition _) = current_view_count m"
| "selected_metric m (InteractiveCondition _) = current_comment_count m"

text \<open>Modelled from the spec: the threshold that a condition carries (section 3). The
  backend's model is missing.\<close>

fun threshold_of :: "Condition \<Rightarrow> int" where
  "threshold_of (TimeCondition reveal_timestamp) = reveal_timestamp"
| "threshold_of (ViewCountCondition threshold) = threshold"
| "threshold_of (InteractiveCondition comment_threshold) = comment_threshold"

subsection \<open>Stored artworks and the reveal transition\<close>

text \<open>Modelled from the spec: the stored artwork (section 3) with the fields that the
  evaluator, the notifier and the update use. The comment count is the number of comments
  of the artwork. The backend's model is missing.\<close>

record StoredArtwork =
  stored_id :: int
  title :: string
  description :: string
  artist :: string
  placeholder_image :: "File option"
  is_revealed :: bool
  view_count :: int
  comment_count :: int
  conditions :: "Condition list"

text \<open>Modelled from the spec: the policy for an artwork with several conditions, which
  section 9 leaves open and asks to be configurable (all or any). The backend's condition
  check is missing.\<close>

datatype policy = RequireAll | RequireAny

text \<open>Modelled from the spec: the three kinds of notification event (section 3). The event
  handler is missing.\<close>

datatype event_kind = artwork_revealed | new_comment | view_milestone

text \<open>Modelled from the spec: what is configured: the policy and the view milestones
  (section 4.2, for example 10, 50 and 100). The backend's settings are missing.\<close>

record Config =
  reveal_policy :: policy
  milestones :: "int list"

text \<open>Modelled from the spec: whether the conditions of an artwork ask for the reveal,
  under the configured policy (section 9). The backend's condition check is missing.\<close>

definition conditions_met :: "Config \<Rightarrow> Metrics \<Rightarrow> Condition list \<Rightarrow> bool" where
  "conditions_met cfg m cs =
     (case reveal_policy cfg of
        RequireAll \<Rightarrow> list_all (evaluate m) cs
      | RequireAny \<Rightarrow> list_ex (evaluate m) cs)"

text \<open>Modelled from the spec: the transient notification event (section 3): its kind, the
  artwork id, the title and the artist's name, and a timestamp. The event handler is
  missing.\<close>

record NotificationEvent =
  kind :: event_kind
  event_artwork_id :: int
  event_title :: string
  event_artist :: string
  timestamp :: int

text \<open>Modelled from the spec: the construction of one event for an artwork at a time
  (section 4.2). The event handler is missing.\<close>

definition make_event :: "event_kind \<Rightarrow> int \<Rightarrow> StoredArtwork \<Rightarrow> NotificationEvent" where
  "make_event k now a =
     \<lparr> kind = k, event_artwork_id = stored_id a, event_title = StoredArtwork.title a,
       event_artist = artist a, timestamp = now \<rparr>"

text \<open>Modelled from the spec: \<^verbatim>\<open>notify_revealed(artwork)\<close> constructs one event (section
  4.2). The event handler is missing.\<close>

definition notify_revealed :: "int \<Rightarrow> StoredArtwork \<Rightarrow> NotificationEvent" where
  "notify_revealed now a = make_event artwork_revealed now a"

text \<open>Modelled from the spec: \<^verbatim>\<open>notify_new_comment(artwork, comment)\<close> constructs one
  event (section 4.2). The event handler is missing.\<close>

definition notify_new_comment :: "int \<Rightarrow> StoredArtwork \<Rightarrow> NotificationEvent" where
  "notify_new_comment now a = make_event new_comment now a"

text \<open>Modelled from the spec: \<^verbatim>\<open>notify_view_milestone(artwork, new_count)\<close> constructs
  one event (section 4.2). The event handler is missing.\<close>

definition notify_view_milestone :: "int \<Rightarrow> StoredArtwork \<Rightarrow> NotificationEvent" where
  "notify_view_milestone now a = make_event view_milestone now a"

text \<open>Modelled from the spec: the metrics of an artwork at a time (section 4.1). The view
  code of the backend is missing.\<close>

definition metrics_of :: "int \<Rightarrow> StoredArtwork \<Rightarrow> Metrics" where
  "metrics_of now a =
     \<lparr> current_time = now, current_view_count = view_count a,
       current_comment_count = comment_count a \<rparr>"

text \<open>Modelled from the spec: the transition path of section 4.1. The caller evaluates,
  persists \<^verbatim>\<open>is_revealed = true\<close> and invokes the notifier once, guarded by the flag.
  The view code of the backend is missing.\<close>

definition transition :: "Config \<Rightarrow> int \<Rightarrow> StoredArtwork \<Rightarrow> StoredArtwork \<times> NotificationEvent list" where
  "transition cfg now a =
     (if is_revealed a then (a, [])
      else if conditions_met cfg (metrics_of now a) (conditions a)
        then (a\<lparr>is_revealed := True\<rparr>, [notify_revealed now a])
      else (a, []))"

text \<open>Modelled from the spec: the operations on an artwork (section 3): a view event, a
  comment event and a run of the evaluator, each at a time, and an update with the request
  body that the edit page sends. The CRUD layer of the backend is missing.\<close>

datatype operation =
    ViewEvent int
  | CommentEvent int
  | EvaluatorTransition int
  | UpdateArtwork ArtworkUpdate

text \<open>Modelled from the spec: the update writes the fields of the request body, which are
  the three that \<^verbatim>\<open>handleSubmit\<close> of the edit page sends; the flag and the counters are
  mutated only by the events and the evaluator (section 3). The CRUD layer of the backend
  is missing.\<close>

definition apply_update :: "ArtworkUpdate \<Rightarrow> StoredArtwork \<Rightarrow> StoredArtwork" where
  "apply_update u a =
     a\<lparr> StoredArtwork.title := ArtworkUpdate.title u,
        StoredArtwork.description := ArtworkUpdate.description u,
        StoredArtwork.placeholder_image := ArtworkUpdate.placeholder_image u \<rparr>"

text \<open>Modelled from the spec: one operation (sections 2, 3 and 4.2). A view event
  increments the view count, a comment event the comment count; each is followed by the
  transition path. A milestone notification fires only when the new view count is a
  configured milestone; a comment is notified. The result is the artwork after the
  operation and the events emitted. The CRUD layer of the backend is missing.\<close>

fun step :: "Config \<Rightarrow> operation \<Rightarrow> StoredArtwork \<Rightarrow> StoredArtwork \<times> NotificationEvent list" where
  "step cfg (ViewEvent now) a =
     (let a1 = a\<lparr>view_count := view_count a + 1\<rparr>;
          milestone =
            (if view_count a1 \<in> set (milestones cfg) then [notify_view_milestone now a1] else []);
          (a2, revealed) = transition cfg now a1
      in (a2, milestone @ revealed))"
| "step cfg (CommentEvent now) a =
     (let a1 = a\<lparr>comment_count := comment_count a + 1\<rparr>;
          (a2, revealed) = transition cfg now a1
      in (a2, notify_new_comment now a1 # revealed))"
| "step cfg (EvaluatorTransition now) a = transition cfg now a"
| "step cfg (UpdateArtwork u) a = (apply_update u a, [])"

text \<open>Modelled from the spec: a sequence of operations on one artwork, serialised as
  section 5 requires: the artwork after the last one and all events emitted, in order. The
  CRUD layer of the backend is missing.\<close>

fun run :: "Config \<Rightarrow> operation list \<Rightarrow> StoredArtwork \<Rightarrow> StoredArtwork \<times> NotificationEvent list" where
  "run cfg [] a = (a, [])"
| "run cfg (op # ops) a =
     (let (a1, first) = step cfg op a;
          (a2, rest) = run cfg ops a1
      in (a2, first @ rest))"

text \<open>Modelled from the spec: the \<^verbatim>\<open>artwork_revealed\<close> events among the emitted events
  (section 3). The event handler is missing.\<close>

definition revealed_events :: "NotificationEvent list \<Rightarrow> NotificationEvent list" where
  "revealed_events es = filter (\<lambda>e. kind e = artwork_revealed) es"

section \<open>Well-formed conditions\<close>

text \<open>A condition of the closed sum: one of the three tags, and a value carrying exactly
  the key of its tag.\<close>

definition well_formed :: "RevealCondition \<Rightarrow> bool" where
  "well_formed c =
     (let v = RevealCondition.condition_value c
      in (RevealCondition.condition_type c = ''time''
            \<and> reveal_at v \<noteq> None \<and> count v = None \<and> ConditionValue.comment_count v = None)
       \<or> (RevealCondition.condition_type c = ''view_count''
            \<and> reveal_at v = None \<and> count v \<noteq> None \<and> ConditionValue.comment_count v = None)
       \<or> (RevealCondition.condition_type c = ''interactive''
            \<and> reveal_at v = None \<and> count v = None \<and> ConditionValue.comment_count v \<noteq> None))"

section \<open>Example values\<close>

subsection \<open>Hosts\<close>

text \<open>A host that computes exactly on the rationals, with \<open>None\<close> where the result is not
  a finite number. It agrees with double arithmetic on the examples that use it, where
  every intermediate value is a double.\<close>

definition exact_host :: "rat option js_number" where
  "exact_host =
     \<lparr> js_num = (\<lambda>n. Some (of_int n)),
       js_nan = None,
       js_add = (\<lambda>a b. case (a, b) of (Some x, Some y) \<Rightarrow> Some (x + y) | _ \<Rightarrow> None),
       js_sub = (\<lambda>a b. case (a, b) of (Some x, Some y) \<Rightarrow> Some (x - y) | _ \<Rightarrow> None),
       js_div = (\<lambda>a b. case (a, b) of
                   (Some x, Some y) \<Rightarrow> if y = 0 then None else Some (x / y) | _ \<Rightarrow> None),
       js_mul = (\<lambda>a b. case (a, b) of (Some x, Some y) \<Rightarrow> Some (x * y) | _ \<Rightarrow> None),
       js_floor = map_option (\<lambda>x. of_int \<lfloor>x\<rfloor>),
       js_min = (\<lambda>a b. case (a, b) of (Some x, Some y) \<Rightarrow> Some (min x y) | _ \<Rightarrow> None),
       js_getTime = (\<lambda>_. None) \<rparr>"



text \<open>
  A host in the time zone America/New_York, for the time values of March 2025. The first
  of March, 00:00 UTC, is the time value 1740787200000. Local time is five hours behind
  UTC until the clocks go forward on the ninth of March at 07:00 UTC (02:00 local time,
  which becomes 03:00), and four hours behind from then on; a local time in the skipped
  hour takes the offset before the change.
\<close>

definition two_digits :: "int \<Rightarrow> string" where
  "two_digits n = [''0123456789'' ! nat (n div 10), ''0123456789'' ! nat (n mod 10)]"

definition three_digits :: "int \<Rightarrow> string" where
  "three_digits n = ''0123456789'' ! nat (n div 100) # two_digits (n mod 100)"

definition new_york :: js_date where
  "new_york =
     \<lparr> localTZA = (\<lambda>t isUTC.
         if isUTC then (if t < 1741503600000 then - 18000000 else - 14400000)
         else (if t < 1741489200000 then - 18000000 else - 14400000)),
       dateFromTime = (\<lambda>t. 1 + (t - 1740787200000) div 86400000),
       toISOString = (\<lambda>t.
         ''2025-03-'' @ two_digits (1 + (t - 1740787200000) div 86400000)
         @ ''T'' @ two_digits ((t - 1740787200000) mod 86400000 div 3600000)
         @ '':'' @ two_digits ((t - 1740787200000) mod 3600000 div 60000)
         @ '':'' @ two_digits ((t - 1740787200000) mod 60000 div 1000)
         @ ''.'' @ three_digits ((t - 1740787200000) mod 1000) @ ''Z'') \<rparr>"

subsection \<open>Artworks and dashboards\<close>


definition view_count_100 :: RevealCondition where
  "view_count_100 =
     \<lparr> RevealCondition.condition_type = ''view_count'',
       RevealCondition.condition_value =
         \<lparr> reveal_at = None, count = Some 100, ConditionValue.comment_count = None \<rparr> \<rparr>"

definition interactive_10 :: RevealCondition where
  "interactive_10 =
     \<lparr> RevealCondition.condition_type = ''interactive'',
       RevealCondition.condition_value =
         \<lparr> reveal_at = None, count = None, ConditionValue.comment_count = Some 10 \<rparr> \<rparr>"


definition artwork_two :: Artwork where
  "artwork_two =
     \<lparr> ident = 2, Artwork.is_revealed = False, Artwork.view_count = 50,
       comments = [], Artwork.reveal_conditions = [view_count_100],
       created_at = ''2025-01-03T12:00:00Z'' \<rparr>"

definition artwork_two_more :: Artwork where
  "artwork_two_more =
     artwork_two\<lparr>Artwork.reveal_conditions := [view_count_100, interactive_10]\<rparr>"





subsection \<open>Forms\<close>

text \<open>Form values of the upload page: a valid form, a condition of an unknown type and a
  condition without value.\<close>

definition valid_values :: ArtworkCreate where
  "valid_values =
     \<lparr> ArtworkCreate.title = ''Mystery Landscape'', ArtworkCreate.description = [],
       content_type = ''image/jpeg'',
       artwork_file = Some (File ''landscape.jpg'' ''image/jpeg''),
       ArtworkCreate.placeholder_image = None,
       ArtworkCreate.reveal_conditions =
         [\<lparr> condition_type = Some ''view_count'',
            condition_value =
              Some \<lparr> reveal_at = None, count = Some 100,
                     ConditionValue.comment_count = None \<rparr> \<rparr>] \<rparr>"

definition location_condition :: FormCondition where
  "location_condition =
     \<lparr> condition_type = Some ''location'',
       condition_value =
         Some \<lparr> reveal_at = None, count = None, ConditionValue.comment_count = None \<rparr> \<rparr>"

definition valueless_condition :: FormCondition where
  "valueless_condition = \<lparr> condition_type = Some ''time'', condition_value = None \<rparr>"

definition idle_upload :: Upload where
  "idle_upload =
     \<lparr> uploading = False, uploadSuccess = False, uploadError = None,
       artwork = Some (File ''landscape.jpg'' ''image/jpeg''), artworkPreview = None,
       placeholder = None, placeholderPreview = None \<rparr>"

text \<open>A comment form holding a space, \<^verbatim>\<open>hi\<close> and a line feed, and one holding a
  space and a tab.\<close>

definition typed_comment :: CommentSection where
  "typed_comment =
     \<lparr> commentText = [0x20, 0x68, 0x69, 0x0A], isSubmitting = False,
       CommentSection.error = None, commentAdded = False \<rparr>"

definition blank_comment :: CommentSection where
  "blank_comment =
     \<lparr> commentText = [0x20, 0x09], isSubmitting = False, CommentSection.error = None,
       commentAdded = False \<rparr>"

definition example_update :: ArtworkUpdate where
  "example_update =
     \<lparr> ArtworkUpdate.title = ''Updated Mystery Landscape'',
       ArtworkUpdate.description = ''Updated description'',
       ArtworkUpdate.placeholder_image = None \<rparr>"

definition idle_edit :: EditArtwork where
  "idle_edit = \<lparr> saving = False, success = False, EditArtwork.error = None \<rparr>"

subsection \<open>A stored artwork\<close>

text \<open>A hidden artwork that two more views reveal (98 views, view-count condition of 100),
  a configuration with the milestones 10, 50 and 100, and a sequence of three views and a
  comment.\<close>

definition hidden_artwork :: StoredArtwork where
  "hidden_artwork =
     \<lparr> stored_id = 1, StoredArtwork.title = ''Mystery Landscape'',
       StoredArtwork.description = ''A landscape that reveals itself over time'',
       artist = ''artlover'', StoredArtwork.placeholder_image = None,
       StoredArtwork.is_revealed = False, StoredArtwork.view_count = 98,
       StoredArtwork.comment_count = 0, conditions = [ViewCountCondition 100] \<rparr>"

definition example_config :: Config where
  "example_config = \<lparr> reveal_policy = RequireAll, milestones = [10, 50, 100] \<rparr>"

definition example_operations :: "operation list" where
  "example_operations = [ViewEvent 10, ViewEvent 20, ViewEvent 30, CommentEvent 40]"

section \<open>Properties of the delete handler\<close>



lemma filter_absent:
  "artworkId \<notin> ident ` set as \<Longrightarrow> filter (\<lambda>artwork. ident artwork \<noteq> artworkId) as = as"
  by (induction as) auto


text \<open>Removing the one artwork with the id removes its share of every aggregate.\<close>

lemma removed_sum:
  assumes "distinct (map ident as)"
    and "find (\<lambda>artwork. ident artwork = artworkId) as = Some d"
  shows "(\<Sum>a\<leftarrow>filter (\<lambda>artwork. ident artwork \<noteq> artworkId) as. f a) = (\<Sum>a\<leftarrow>as. f a) - (f d :: int)"
  using assms
proof (induction as)
  case Nil
  then show ?case by simp
next
  case (Cons a as)
  show ?case
  proof (cases "ident a = artworkId")
    case True
    with Cons.prems have "d = a" "artworkId \<notin> ident ` set as" by auto
    with True show ?thesis by (simp add: filter_absent)
  next
    case False
    with Cons.prems have "distinct (map ident as)"
      "find (\<lambda>artwork. ident artwork = artworkId) as = Some d" by auto
    from Cons.IH [OF this] False show ?thesis by simp
  qed
qed

lemma removed_length:
  assumes "distinct (map ident as)"
    and "find (\<lambda>artwork. ident artwork = artworkId) as = Some d"
  shows "int (length (filter (\<lambda>artwork. ident artwork \<noteq> artworkId) as)) = int (length as) - 1"
  using removed_sum [OF assms, of "\<lambda>a. 1"] by (simp add: sum_list_triv)

lemma length_filter_sum: "int (length (filter P xs)) = (\<Sum>x\<leftarrow>xs. if P x then 1 else 0)"
  by (induction xs) simp_all

lemma removed_reveals:
  assumes "distinct (map ident as)"
    and "find (\<lambda>artwork. ident artwork = artworkId) as = Some d"
  shows "int (length (filter Artwork.is_revealed (filter (\<lambda>artwork. ident artwork \<noteq> artworkId) as))) =
     int (length (filter Artwork.is_revealed as)) - (if Artwork.is_revealed d then 1 else 0)"
  using removed_sum [OF assms, of "\<lambda>a. if Artwork.is_revealed a then 1 else 0"]
  by (simp only: length_filter_sum)














section \<open>Properties of the comment form\<close>

text \<open>
  C10. A submission whose trimmed text is empty sends no request and leaves the state as it
  was; a submission whose trimmed text is not empty sends exactly one request, for the
  artwork of the \<^verbatim>\<open>artworkId\<close> prop, whose body has that id and the trimmed text.
\<close>

theorem CommentSection_handleSubmit_guard:
  "(trim (commentText st) = [] \<longrightarrow>
      CommentSection_handleSubmit artworkId hasCallback resp st = (st, [], []))
   \<and> (trim (commentText st) \<noteq> [] \<longrightarrow>
      fst (snd (CommentSection_handleSubmit artworkId hasCallback resp st)) =
        [(artworkId, \<lparr> artwork_id = artworkId, content = trim (commentText st) \<rparr>)])"
  by (simp add: CommentSection_handleSubmit_def Let_def split: response.split)

theorem CommentSection_handleSubmit_guard_witness:
  "trim (commentText blank_comment) = []
   \<and> CommentSection_handleSubmit 5 True (Rejected None) blank_comment = (blank_comment, [], [])
   \<and> trim (commentText typed_comment) = [0x68, 0x69]
   \<and> fst (snd (CommentSection_handleSubmit 5 True (Rejected None) typed_comment)) =
       [(5, \<lparr> artwork_id = 5, content = [0x68, 0x69] \<rparr>)]"
proof -
  have blank: "trim (commentText blank_comment) = []"
    by (simp add: blank_comment_def trim_def isWhiteSpace_def)
  have typed: "trim (commentText typed_comment) = [0x68, 0x69]"
    by (simp add: typed_comment_def trim_def isWhiteSpace_def)
  from CommentSection_handleSubmit_guard [of blank_comment 5 True "Rejected None"]
    CommentSection_handleSubmit_guard [of typed_comment 5 True "Rejected None"]
    blank typed
  show ?thesis by simp
qed

section \<open>Properties of the default conditions\<close>

lemma setDate_week: "setDate D now (getDate D now + 7) = UTC D (LocalTime D now + 7 * msPerDay)"
  by (simp add: setDate_def getDate_def)

lemma UTC_same_offset:
  assumes "localTZA D (LocalTime D now + 7 * msPerDay) False = localTZA D now True"
  shows "UTC D (LocalTime D now + 7 * msPerDay) = now + 7 * msPerDay"
  using assms by (simp add: UTC_def LocalTime_def)

text \<open>
  C8, amended. \<^verbatim>\<open>initializeCondition\<close> returns, for every string, a condition whose type
  is one of the three tags and whose value carries exactly the key of that type: a
  view-count condition has count 100, an interactive condition has comment count 10. For a
  string outside the three tags the result is a time condition whose \<^verbatim>\<open>reveal_at\<close> is
  the time of the call. For \<^verbatim>\<open>'time'\<close> it is a time condition whose \<^verbatim>\<open>reveal_at\<close> is
  the instant that local clocks show seven days after the call at the same time of day;
  this is the time of the call plus seven times 24 hours when local time has the same
  offset from UTC at both instants. In every case \<^verbatim>\<open>reveal_at\<close> holds the first 16
  characters of the rendering in UTC, that is the instant to the minute.
\<close>

theorem initializeCondition_well_formed:
  "well_formed (initializeCondition D now t)
   \<and> RevealCondition.condition_type (initializeCondition D now t)
       \<in> {''time'', ''view_count'', ''interactive''}
   \<and> (RevealCondition.condition_type (initializeCondition D now t) = ''view_count'' \<longrightarrow>
        RevealCondition.condition_value (initializeCondition D now t) =
          \<lparr> reveal_at = None, count = Some 100, ConditionValue.comment_count = None \<rparr>)
   \<and> (RevealCondition.condition_type (initializeCondition D now t) = ''interactive'' \<longrightarrow>
        RevealCondition.condition_value (initializeCondition D now t) =
          \<lparr> reveal_at = None, count = None, ConditionValue.comment_count = Some 10 \<rparr>)
   \<and> (t = ''view_count'' \<longrightarrow>
        RevealCondition.condition_type (initializeCondition D now t) = ''view_count'')
   \<and> (t = ''interactive'' \<longrightarrow>
        RevealCondition.condition_type (initializeCondition D now t) = ''interactive'')
   \<and> (t = ''time'' \<longrightarrow>
        initializeCondition D now t =
          \<lparr> RevealCondition.condition_type = ''time'',
            RevealCondition.condition_value =
              \<lparr> reveal_at =
                  Some (take 16 (toISOString D (UTC D (LocalTime D now + 7 * msPerDay)))),
                count = None, ConditionValue.comment_count = None \<rparr> \<rparr>)
   \<and> (t = ''time''
        \<and> localTZA D (LocalTime D now + 7 * msPerDay) False = localTZA D now True \<longrightarrow>
        initializeCondition D now t =
          \<lparr> RevealCondition.condition_type = ''time'',
            RevealCondition.condition_value =
              \<lparr> reveal_at = Some (take 16 (toISOString D (now + 7 * msPerDay))),
                count = None, ConditionValue.comment_count = None \<rparr> \<rparr>)
   \<and> (t \<notin> {''time'', ''view_count'', ''interactive''} \<longrightarrow>
        initializeCondition D now t =
          \<lparr> RevealCondition.condition_type = ''time'',
            RevealCondition.condition_value =
              \<lparr> reveal_at = Some (take 16 (toISOString D now)),
                count = None, ConditionValue.comment_count = None \<rparr> \<rparr>)"
  using UTC_same_offset [of D now]
  by (simp add: initializeCondition_def well_formed_def Let_def setDate_week)

text \<open>In New York on 12 March 2025, 12:30 UTC, after the clocks have gone forward: the
  default reveal time is 19 March, 12:30 UTC.\<close>

theorem initializeCondition_well_formed_witness:
  "localTZA new_york (LocalTime new_york 1741782600000 + 7 * msPerDay) False =
     localTZA new_york 1741782600000 True
   \<and> take 16 (toISOString new_york 1741782600000) = ''2025-03-12T12:30''
   \<and> take 16 (toISOString new_york (1741782600000 + 7 * msPerDay)) = ''2025-03-19T12:30''
   \<and> initializeCondition new_york 1741782600000 ''time'' =
     \<lparr> RevealCondition.condition_type = ''time'',
       RevealCondition.condition_value =
         \<lparr> reveal_at = Some ''2025-03-19T12:30'', count = None,
           ConditionValue.comment_count = None \<rparr> \<rparr>
   \<and> ''location'' \<notin> {''time'', ''view_count'', ''interactive''}
   \<and> initializeCondition new_york 1741782600000 ''location'' =
     \<lparr> RevealCondition.condition_type = ''time'',
       RevealCondition.condition_value =
         \<lparr> reveal_at = Some ''2025-03-12T12:30'', count = None,
           ConditionValue.comment_count = None \<rparr> \<rparr>
   \<and> RevealCondition.condition_value (initializeCondition new_york 1741782600000 ''view_count'') =
       \<lparr> reveal_at = None, count = Some 100, ConditionValue.comment_count = None \<rparr>
   \<and> RevealCondition.condition_value (initializeCondition new_york 1741782600000 ''interactive'') =
       \<lparr> reveal_at = None, count = None, ConditionValue.comment_count = Some 10 \<rparr>
   \<and> well_formed (initializeCondition new_york 1741782600000 ''location'')"
proof -
  have same: "localTZA new_york (LocalTime new_york 1741782600000 + 7 * msPerDay) False =
     localTZA new_york 1741782600000 True"
    by (simp add: new_york_def LocalTime_def msPerDay_def)
  have current: "take 16 (toISOString new_york 1741782600000) = ''2025-03-12T12:30''"
    by (simp add: new_york_def two_digits_def three_digits_def)
  have later: "take 16 (toISOString new_york (1741782600000 + 7 * msPerDay)) = ''2025-03-19T12:30''"
    by (simp add: new_york_def two_digits_def three_digits_def msPerDay_def)
  have other: "''location'' \<notin> {''time'', ''view_count'', ''interactive''}"
    by simp
  from initializeCondition_well_formed [of new_york 1741782600000 "''time''",
      THEN conjunct2, THEN conjunct2, THEN conjunct2, THEN conjunct2, THEN conjunct2,
      THEN conjunct2, THEN conjunct2, THEN conjunct1] same
  have "initializeCondition new_york 1741782600000 ''time'' =
     \<lparr> RevealCondition.condition_type = ''time'',
       RevealCondition.condition_value =
         \<lparr> reveal_at = Some (take 16 (toISOString new_york (1741782600000 + 7 * msPerDay))),
           count = None, ConditionValue.comment_count = None \<rparr> \<rparr>"
    by simp
  with later
  have week: "initializeCondition new_york 1741782600000 ''time'' =
     \<lparr> RevealCondition.condition_type = ''time'',
       RevealCondition.condition_value =
         \<lparr> reveal_at = Some ''2025-03-19T12:30'', count = None,
           ConditionValue.comment_count = None \<rparr> \<rparr>"
    by simp
  from initializeCondition_well_formed [of new_york 1741782600000 "''location''",
      THEN conjunct2, THEN conjunct2, THEN conjunct2, THEN conjunct2, THEN conjunct2,
      THEN conjunct2, THEN conjunct2, THEN conjunct2] other current
  have fallback: "initializeCondition new_york 1741782600000 ''location'' =
     \<lparr> RevealCondition.condition_type = ''time'',
       RevealCondition.condition_value =
         \<lparr> reveal_at = Some ''2025-03-12T12:30'', count = None,
           ConditionValue.comment_count = None \<rparr> \<rparr>"
    by simp
  from initializeCondition_well_formed [of new_york 1741782600000 "''location''"]
  have formed: "well_formed (initializeCondition new_york 1741782600000 ''location'')"
    by (rule conjunct1)
  from initializeCondition_well_formed [of new_york 1741782600000 "''view_count''",
      THEN conjunct2, THEN conjunct2, THEN conjunct1]
    initializeCondition_well_formed [of new_york 1741782600000 "''view_count''",
      THEN conjunct2, THEN conjunct2, THEN conjunct2, THEN conjunct2, THEN conjunct1]
  have views: "RevealCondition.condition_value
      (initializeCondition new_york 1741782600000 ''view_count'') =
       \<lparr> reveal_at = None, count = Some 100, ConditionValue.comment_count = None \<rparr>"
    by simp
  from initializeCondition_well_formed [of new_york 1741782600000 "''interactive''",
      THEN conjunct2, THEN conjunct2, THEN conjunct2, THEN conjunct1]
    initializeCondition_well_formed [of new_york 1741782600000 "''interactive''",
      THEN conjunct2, THEN conjunct2, THEN conjunct2, THEN conjunct2, THEN conjunct2,
      THEN conjunct1]
  have interact: "RevealCondition.condition_value
      (initializeCondition new_york 1741782600000 ''interactive'') =
       \<lparr> reveal_at = None, count = None, ConditionValue.comment_count = Some 10 \<rparr>"
    by simp
  show ?thesis
    by (intro conjI same current later week other fallback views interact formed)
qed

text \<open>
  The claim as stated, with \<^verbatim>\<open>reveal_at\<close> the current time plus 7 days, fails in a week
  in which the clocks change. In New York on 5 March 2025, 12:30 UTC (07:30 local time),
  the date seven days later at 07:30 local time is 12 March, 11:30 UTC, one hour short of
  the current time plus 7 days.
\<close>

theorem initializeCondition_well_formed_counterexample:
  "localTZA new_york 1741177800000 True = - 18000000
   \<and> localTZA new_york (LocalTime new_york 1741177800000 + 7 * msPerDay) False = - 14400000
   \<and> take 16 (toISOString new_york 1741177800000) = ''2025-03-05T12:30''
   \<and> take 16 (toISOString new_york (1741177800000 + 7 * msPerDay)) = ''2025-03-12T12:30''
   \<and> initializeCondition new_york 1741177800000 ''time'' =
     \<lparr> RevealCondition.condition_type = ''time'',
       RevealCondition.condition_value =
         \<lparr> reveal_at = Some ''2025-03-12T11:30'', count = None,
           ConditionValue.comment_count = None \<rparr> \<rparr>
   \<and> reveal_at (RevealCondition.condition_value
         (initializeCondition new_york 1741177800000 ''time''))
       \<noteq> Some (take 16 (toISOString new_york (1741177800000 + 7 * msPerDay)))"
proof -
  have before: "localTZA new_york 1741177800000 True = - 18000000"
    by (simp add: new_york_def)
  have after: "localTZA new_york (LocalTime new_york 1741177800000 + 7 * msPerDay) False =
      - 14400000"
    by (simp add: new_york_def LocalTime_def msPerDay_def)
  have date: "setDate new_york 1741177800000 (getDate new_york 1741177800000 + 7) =
      1741779000000"
    by (simp add: setDate_def getDate_def new_york_def LocalTime_def UTC_def msPerDay_def)
  have rendered: "take 16 (toISOString new_york 1741779000000) = ''2025-03-12T11:30''"
    by (simp add: new_york_def two_digits_def three_digits_def)
  have current: "take 16 (toISOString new_york 1741177800000) = ''2025-03-05T12:30''"
    by (simp add: new_york_def two_digits_def three_digits_def)
  have week: "take 16 (toISOString new_york (1741177800000 + 7 * msPerDay)) =
      ''2025-03-12T12:30''"
    by (simp add: new_york_def two_digits_def three_digits_def msPerDay_def)
  have result: "initializeCondition new_york 1741177800000 ''time'' =
     \<lparr> RevealCondition.condition_type = ''time'',
       RevealCondition.condition_value =
         \<lparr> reveal_at = Some ''2025-03-12T11:30'', count = None,
           ConditionValue.comment_count = None \<rparr> \<rparr>"
    by (simp add: initializeCondition_def Let_def date rendered)
  have differ: "reveal_at (RevealCondition.condition_value
         (initializeCondition new_york 1741177800000 ''time''))
       \<noteq> Some (take 16 (toISOString new_york (1741177800000 + 7 * msPerDay)))"
    by (simp add: result week)
  show ?thesis
    by (intro conjI before after current week result differ)
qed

section \<open>Properties of the dashboard's summary and completion percentage\<close>

lemma first_condition_take:
  assumes "take 1 (Artwork.reveal_conditions a) = take 1 (Artwork.reveal_conditions b)"
  shows "first_condition a = first_condition b"
proof (cases "Artwork.reveal_conditions a")
  case Nil
  with assms have "Artwork.reveal_conditions b = []" by simp
  with Nil show ?thesis by (simp add: first_condition_def)
next
  case (Cons c cs)
  with assms obtain ds where "Artwork.reveal_conditions b = c # ds"
    by (cases "Artwork.reveal_conditions b") auto
  with Cons show ?thesis by (simp add: first_condition_def)
qed

text \<open>
  C7. The summary of the reveal condition and the completion percentage read the list of
  conditions only at its first position: two artworks with the same revealed flag, view
  count, number of comments and creation time whose lists of conditions agree on the
  first position (both empty, or the same first condition) get the same summary and the
  same percentage, whatever follows the first condition.
\<close>

theorem first_condition_decides:
  assumes "Artwork.is_revealed a = Artwork.is_revealed b"
    and "Artwork.view_count a = Artwork.view_count b"
    and "length (comments a) = length (comments b)"
    and "created_at a = created_at b"
    and "take 1 (Artwork.reveal_conditions a) = take 1 (Artwork.reveal_conditions b)"
  shows "formatRevealCondition J a = formatRevealCondition J b
       \<and> completionPercentage J now a = completionPercentage J now b"
proof -
  from assms(5) have first: "first_condition a = first_condition b"
    by (rule first_condition_take)
  show ?thesis
    unfolding formatRevealCondition_def completionPercentage_def
      assms(1) assms(2) assms(3) assms(4) first
    by (rule conjI; rule refl)
qed

lemmas example_rows =
  artwork_two_def artwork_two_more_def view_count_100_def interactive_10_def

theorem first_condition_decides_witness:
  "Artwork.reveal_conditions artwork_two \<noteq> Artwork.reveal_conditions artwork_two_more
   \<and> take 1 (Artwork.reveal_conditions artwork_two) =
       take 1 (Artwork.reveal_conditions artwork_two_more)
   \<and> formatRevealCondition exact_host artwork_two_more =
       formatRevealCondition exact_host artwork_two
   \<and> completionPercentage exact_host (Some 0) artwork_two_more =
       completionPercentage exact_host (Some 0) artwork_two
   \<and> completionPercentage exact_host (Some 0) artwork_two = Some 50
   \<and> formatRevealCondition exact_host artwork_two =
       BoxChipProgress
         [NumPiece (Some 50), StrPiece ''/'', NumPiece (Some 100), StrPiece '' views'']
         (Some 50)"
proof -
  have h1: "Artwork.is_revealed artwork_two_more = Artwork.is_revealed artwork_two"
    and h2: "Artwork.view_count artwork_two_more = Artwork.view_count artwork_two"
    and h3: "length (comments artwork_two_more) = length (comments artwork_two)"
    and h4: "created_at artwork_two_more = created_at artwork_two"
    and h5: "take 1 (Artwork.reveal_conditions artwork_two_more) =
             take 1 (Artwork.reveal_conditions artwork_two)"
    by (simp_all add: example_rows)
  have differ:
    "Artwork.reveal_conditions artwork_two \<noteq> Artwork.reveal_conditions artwork_two_more"
    by (simp add: example_rows)
  have percentage: "completionPercentage exact_host (Some 0) artwork_two = Some 50"
    by (simp add: completionPercentage_def first_condition_def js_of_def exact_host_def
        example_rows)
  have summary: "formatRevealCondition exact_host artwork_two =
       BoxChipProgress
         [NumPiece (Some 50), StrPiece ''/'', NumPiece (Some 100), StrPiece '' views'']
         (Some 50)"
    by (simp add: formatRevealCondition_def first_condition_def js_of_def exact_host_def
        example_rows)
  from first_condition_decides [OF h1 h2 h3 h4 h5, of exact_host "Some 0"]
    h5 differ percentage summary
  show ?thesis by simp
qed

section \<open>Properties of the upload form\<close>

lemma condition_errors_malformed:
  assumes "condition_type c \<notin> {Some ''time'', Some ''view_count'', Some ''interactive''}
           \<or> condition_value c = None"
  shows "condition_errors c \<noteq> []"
proof (cases "condition_value c")
  case None
  then show ?thesis by (simp add: condition_errors_def required_def Let_def)
next
  case (Some v)
  with assms
  have bad: "condition_type c \<notin> {Some ''time'', Some ''view_count'', Some ''interactive''}"
    by simp
  show ?thesis
  proof (cases "condition_type c")
    case None
    then show ?thesis by (simp add: condition_errors_def required_def Let_def)
  next
    case (Some s)
    with bad have "s \<noteq> ''time''" "s \<noteq> ''view_count''" "s \<noteq> ''interactive''"
      by auto
    with Some show ?thesis
      by (simp add: condition_errors_def required_def oneOf_def blank_to_undefined_def Let_def)
  qed
qed

lemma concat_nonempty:
  "x \<in> set xs \<Longrightarrow> f x \<noteq> [] \<Longrightarrow> concat (map f xs) \<noteq> []"
  by (induction xs) auto

text \<open>
  C6. A submitted form whose list of reveal conditions is empty, or holds a condition whose
  type is not one of the three tags (or is absent), or holds a condition without a value,
  fails validation, and the submission calls no create request and leaves the page's state
  as it was.
\<close>

theorem uploadSchema_rejects_malformed_conditions:
  assumes "ArtworkCreate.reveal_conditions values = []
     \<or> (\<exists>c \<in> set (ArtworkCreate.reveal_conditions values).
           condition_type c \<notin> {Some ''time'', Some ''view_count'', Some ''interactive''}
           \<or> condition_value c = None)"
  shows "uploadSchema values \<noteq> [] \<and> Upload_submitForm resp values st = (st, [])"
proof -
  have "uploadSchema values \<noteq> []"
  proof (cases "ArtworkCreate.reveal_conditions values = []")
    case True
    then show ?thesis by (simp add: uploadSchema_def min_items_def)
  next
    case False
    with assms obtain c where c: "c \<in> set (ArtworkCreate.reveal_conditions values)"
      and bad: "condition_type c \<notin> {Some ''time'', Some ''view_count'', Some ''interactive''}
                \<or> condition_value c = None"
      by blast
    from bad have "condition_errors c \<noteq> []"
      by (rule condition_errors_malformed)
    with c have "concat (map condition_errors (ArtworkCreate.reveal_conditions values)) \<noteq> []"
      by (rule concat_nonempty)
    then show ?thesis by (simp add: uploadSchema_def)
  qed
  then show ?thesis by (simp add: Upload_submitForm_def)
qed

text \<open>The valid example passes validation and its submission sends one create request
  with the form's values.\<close>

lemma valid_values_submitted:
  "uploadSchema valid_values = []
   \<and> snd (Upload_submitForm (Resolved ()) valid_values idle_upload) = [valid_values]"
  by (simp add: Upload_submitForm_def Upload_handleSubmit_def uploadSchema_def
      condition_errors_def required_def oneOf_def max_length_def min_items_def
      blank_to_undefined_def valid_values_def Let_def)

theorem uploadSchema_rejects_malformed_conditions_witness:
  "Upload_submitForm (Resolved ())
      (valid_values\<lparr>ArtworkCreate.reveal_conditions := []\<rparr>) idle_upload = (idle_upload, [])
   \<and> condition_type location_condition
        \<notin> {Some ''time'', Some ''view_count'', Some ''interactive''}
   \<and> Upload_submitForm (Resolved ())
      (valid_values\<lparr>ArtworkCreate.reveal_conditions := [location_condition]\<rparr>) idle_upload =
        (idle_upload, [])
   \<and> condition_value valueless_condition = None
   \<and> Upload_submitForm (Resolved ())
      (valid_values\<lparr>ArtworkCreate.reveal_conditions := [valueless_condition]\<rparr>) idle_upload =
        (idle_upload, [])"
proof -
  have h1: "ArtworkCreate.reveal_conditions
              (valid_values\<lparr>ArtworkCreate.reveal_conditions := []\<rparr>) = []
     \<or> (\<exists>c \<in> set (ArtworkCreate.reveal_conditions
                      (valid_values\<lparr>ArtworkCreate.reveal_conditions := []\<rparr>)).
           condition_type c \<notin> {Some ''time'', Some ''view_count'', Some ''interactive''}
           \<or> condition_value c = None)"
    by simp
  have bad_type: "condition_type location_condition
        \<notin> {Some ''time'', Some ''view_count'', Some ''interactive''}"
    by (simp add: location_condition_def)
  have no_value: "condition_value valueless_condition = None"
    by (simp add: valueless_condition_def)
  from bad_type
  have h2: "ArtworkCreate.reveal_conditions
              (valid_values\<lparr>ArtworkCreate.reveal_conditions := [location_condition]\<rparr>) = []
     \<or> (\<exists>c \<in> set (ArtworkCreate.reveal_conditions
                      (valid_values\<lparr>ArtworkCreate.reveal_conditions := [location_condition]\<rparr>)).
           condition_type c \<notin> {Some ''time'', Some ''view_count'', Some ''interactive''}
           \<or> condition_value c = None)"
    by simp
  from no_value
  have h3: "ArtworkCreate.reveal_conditions
              (valid_values\<lparr>ArtworkCreate.reveal_conditions := [valueless_condition]\<rparr>) = []
     \<or> (\<exists>c \<in> set (ArtworkCreate.reveal_conditions
                      (valid_values\<lparr>ArtworkCreate.reveal_conditions := [valueless_condition]\<rparr>)).
           condition_type c \<notin> {Some ''time'', Some ''view_count'', Some ''interactive''}
           \<or> condition_value c = None)"
    by simp
  from uploadSchema_rejects_malformed_conditions [OF h1, of "Resolved ()" idle_upload]
    uploadSchema_rejects_malformed_conditions [OF h2, of "Resolved ()" idle_upload]
    uploadSchema_rejects_malformed_conditions [OF h3, of "Resolved ()" idle_upload]
    bad_type no_value
  show ?thesis by simp
qed

section \<open>Basic facts about the operations on a stored artwork\<close>

lemmas evaluate_defs = evaluate_time_def evaluate_view_count_def evaluate_interactive_def

lemma transition_view_count:
  "StoredArtwork.view_count (fst (transition cfg now a)) = StoredArtwork.view_count a"
  by (simp add: transition_def)

lemma step_fst:
  "fst (step cfg (ViewEvent now) a) =
     fst (transition cfg now (a\<lparr>StoredArtwork.view_count := StoredArtwork.view_count a + 1\<rparr>))"
  "fst (step cfg (CommentEvent now) a) =
     fst (transition cfg now
       (a\<lparr>StoredArtwork.comment_count := StoredArtwork.comment_count a + 1\<rparr>))"
  "fst (step cfg (EvaluatorTransition now) a) = fst (transition cfg now a)"
  "fst (step cfg (UpdateArtwork u) a) = apply_update u a"
  by (simp_all add: Let_def case_prod_beta)

lemma run_Cons_fst: "fst (run cfg (op # ops) a) = fst (run cfg ops (fst (step cfg op a)))"
  by (simp add: Let_def case_prod_beta)

lemma run_Cons_snd:
  "snd (run cfg (op # ops) a) = snd (step cfg op a) @ snd (run cfg ops (fst (step cfg op a)))"
  by (simp add: Let_def case_prod_beta)

lemma step_snd:
  "snd (step cfg (ViewEvent now) a) =
     (if StoredArtwork.view_count a + 1 \<in> set (milestones cfg)
        then [notify_view_milestone now
                (a\<lparr>StoredArtwork.view_count := StoredArtwork.view_count a + 1\<rparr>)]
        else [])
     @ snd (transition cfg now (a\<lparr>StoredArtwork.view_count := StoredArtwork.view_count a + 1\<rparr>))"
  "snd (step cfg (CommentEvent now) a) =
     notify_new_comment now (a\<lparr>StoredArtwork.comment_count := StoredArtwork.comment_count a + 1\<rparr>)
     # snd (transition cfg now
         (a\<lparr>StoredArtwork.comment_count := StoredArtwork.comment_count a + 1\<rparr>))"
  "snd (step cfg (EvaluatorTransition now) a) = snd (transition cfg now a)"
  "snd (step cfg (UpdateArtwork u) a) = []"
  by (simp_all add: Let_def case_prod_beta)

lemma run_append_fst: "fst (run cfg (ops @ further) a) = fst (run cfg further (fst (run cfg ops a)))"
  by (induction ops arbitrary: a) (simp_all add: run_Cons_fst del: run.simps(2))

lemma run_append_snd:
  "snd (run cfg (ops @ further) a) =
     snd (run cfg ops a) @ snd (run cfg further (fst (run cfg ops a)))"
  by (induction ops arbitrary: a)
     (simp_all add: run_Cons_fst run_Cons_snd del: run.simps(2))

lemma revealed_events_simps:
  "revealed_events [] = []"
  "revealed_events (xs @ ys) = revealed_events xs @ revealed_events ys"
  "revealed_events (notify_revealed now a # xs) = notify_revealed now a # revealed_events xs"
  "revealed_events (notify_new_comment now a # xs) = revealed_events xs"
  "revealed_events (notify_view_milestone now a # xs) = revealed_events xs"
  by (simp_all add: revealed_events_def notify_revealed_def notify_new_comment_def
      notify_view_milestone_def make_event_def)

text \<open>The transition path on a revealed artwork does nothing; on a hidden one it reveals
  and notifies together.\<close>

lemma transition_revealed: "StoredArtwork.is_revealed a \<Longrightarrow> transition cfg now a = (a, [])"
  by (simp add: transition_def)

lemma transition_hidden:
  "\<not> StoredArtwork.is_revealed a \<Longrightarrow>
     revealed_events (snd (transition cfg now a)) =
       (if StoredArtwork.is_revealed (fst (transition cfg now a)) then [notify_revealed now a]
        else [])"
  by (simp add: transition_def revealed_events_simps)

lemma step_revealed:
  assumes "StoredArtwork.is_revealed a"
  shows "StoredArtwork.is_revealed (fst (step cfg op a))
       \<and> revealed_events (snd (step cfg op a)) = []"
  using assms
  by (cases op)
     (simp_all add: step_fst step_snd transition_revealed revealed_events_simps
        apply_update_def del: step.simps)

lemma step_hidden:
  assumes "\<not> StoredArtwork.is_revealed a"
  shows "length (revealed_events (snd (step cfg op a))) =
           (if StoredArtwork.is_revealed (fst (step cfg op a)) then 1 else 0)"
  using assms
  by (cases op)
     (simp_all add: step_fst step_snd transition_hidden revealed_events_simps
        apply_update_def del: step.simps)

lemma run_revealed:
  "StoredArtwork.is_revealed a \<Longrightarrow>
     StoredArtwork.is_revealed (fst (run cfg ops a))
     \<and> revealed_events (snd (run cfg ops a)) = []"
proof (induction ops arbitrary: a)
  case Nil
  then show ?case by (simp add: revealed_events_simps)
next
  case (Cons op ops)
  from step_revealed [OF Cons.prems, of cfg op]
  have s1: "StoredArtwork.is_revealed (fst (step cfg op a))"
    and s2: "revealed_events (snd (step cfg op a)) = []"
    by simp_all
  from Cons.IH [OF s1] s2 show ?case
    by (simp add: run_Cons_fst run_Cons_snd revealed_events_simps del: run.simps(2))
qed

lemma run_reveal_count:
  "length (revealed_events (snd (run cfg ops a))) =
     (if \<not> StoredArtwork.is_revealed a \<and> StoredArtwork.is_revealed (fst (run cfg ops a))
      then 1 else 0)"
proof (induction ops arbitrary: a)
  case Nil
  then show ?case by (simp add: revealed_events_simps)
next
  case (Cons op ops)
  show ?case
  proof (cases "StoredArtwork.is_revealed a")
    case True
    from run_revealed [OF True, of cfg "op # ops"] True show ?thesis by simp
  next
    case hidden: False
    show ?thesis
    proof (cases "StoredArtwork.is_revealed (fst (step cfg op a))")
      case True
      from run_revealed [OF True, of cfg ops] step_hidden [OF hidden, of cfg op] True hidden
      show ?thesis
        by (simp add: run_Cons_fst run_Cons_snd revealed_events_simps del: run.simps(2))
    next
      case False
      from Cons.IH [of "fst (step cfg op a)"] step_hidden [OF hidden, of cfg op] False hidden
      show ?thesis
        by (simp add: run_Cons_fst run_Cons_snd revealed_events_simps del: run.simps(2))
    qed
  qed
qed

lemmas example_run =
  evaluate_defs metrics_of_def transition_def conditions_met_def
  notify_view_milestone_def notify_revealed_def notify_new_comment_def make_event_def
  hidden_artwork_def example_config_def example_operations_def example_update_def
  apply_update_def Let_def

lemma example_revealed:
  "StoredArtwork.is_revealed (fst (run example_config [ViewEvent 10, ViewEvent 20] hidden_artwork))"
  by (simp add: example_run)

section \<open>Properties of the condition evaluator\<close>

text \<open>
  C1. For all metrics and every condition, \<^verbatim>\<open>evaluate\<close> is true exactly when the metric
  that the condition's tag selects has reached the condition's threshold: the current time
  for a time condition, the view count for a view-count condition, the comment count for
  an interactive condition. It is a total function to the truth values, so it has no error
  outcome.
\<close>

theorem evaluate_meets_threshold:
  "evaluate m c = (threshold_of c \<le> selected_metric m c)
   \<and> evaluate m (TimeCondition t) = (t \<le> current_time m)
   \<and> evaluate m (ViewCountCondition n) = (n \<le> current_view_count m)
   \<and> evaluate m (InteractiveCondition k) = (k \<le> current_comment_count m)"
  by (cases c) (simp_all add: evaluate_defs)

text \<open>The time condition 2025-01-01T00:00:00Z (in seconds since the epoch) one second
  before and one second after, and a view-count condition of 100 at 99 and at 100 views.\<close>

theorem evaluate_meets_threshold_witness:
  "\<not> evaluate \<lparr> current_time = 1735689599, current_view_count = 0,
                 current_comment_count = 0 \<rparr> (TimeCondition 1735689600)
   \<and> evaluate \<lparr> current_time = 1735689601, current_view_count = 0,
               current_comment_count = 0 \<rparr> (TimeCondition 1735689600)
   \<and> \<not> evaluate \<lparr> current_time = 0, current_view_count = 99,
                   current_comment_count = 0 \<rparr> (ViewCountCondition 100)
   \<and> evaluate \<lparr> current_time = 0, current_view_count = 100,
               current_comment_count = 0 \<rparr> (ViewCountCondition 100)
   \<and> evaluate \<lparr> current_time = 0, current_view_count = 0,
               current_comment_count = 10 \<rparr> (InteractiveCondition 10)"
  using
    evaluate_meets_threshold [of "\<lparr> current_time = 1735689599, current_view_count = 0,
      current_comment_count = 0 \<rparr>" "TimeCondition 1735689600"]
    evaluate_meets_threshold [of "\<lparr> current_time = 1735689601, current_view_count = 0,
      current_comment_count = 0 \<rparr>" "TimeCondition 1735689600"]
    evaluate_meets_threshold [of "\<lparr> current_time = 0, current_view_count = 99,
      current_comment_count = 0 \<rparr>" "ViewCountCondition 100"]
    evaluate_meets_threshold [of "\<lparr> current_time = 0, current_view_count = 100,
      current_comment_count = 0 \<rparr>" "ViewCountCondition 100"]
    evaluate_meets_threshold [of "\<lparr> current_time = 0, current_view_count = 0,
      current_comment_count = 10 \<rparr>" "InteractiveCondition 10"]
  by simp

lemma step_view_count_mono:
  "StoredArtwork.view_count a \<le> StoredArtwork.view_count (fst (step cfg op a))"
  by (cases op) (simp_all add: step_fst transition_view_count apply_update_def del: step.simps)

lemma run_view_count_mono:
  "StoredArtwork.view_count a \<le> StoredArtwork.view_count (fst (run cfg ops a))"
proof (induction ops arbitrary: a)
  case Nil
  then show ?case by simp
next
  case (Cons op ops)
  have "StoredArtwork.view_count a \<le> StoredArtwork.view_count (fst (step cfg op a))"
    by (rule step_view_count_mono)
  also have "\<dots> \<le> StoredArtwork.view_count (fst (run cfg ops (fst (step cfg op a))))"
    by (rule Cons.IH)
  finally show ?case by (simp only: run_Cons_fst)
qed

text \<open>
  C5. For a view-count condition of threshold \<open>N\<close>, \<^verbatim>\<open>evaluate\<close> is true exactly when
  the view count is at least \<open>N\<close>, and it is monotone in the view count: true at \<open>v1\<close>, it
  is true at every \<open>v2\<close> from \<open>v1\<close> on. No operation lowers the view count of an artwork,
  so once \<^verbatim>\<open>evaluate\<close> is true for an artwork it is true after any further operations, at
  any time.
\<close>

theorem view_count_condition_monotone:
  "evaluate m (ViewCountCondition N) = (N \<le> current_view_count m)
   \<and> (v1 \<le> v2 \<longrightarrow> evaluate (m\<lparr>current_view_count := v1\<rparr>) (ViewCountCondition N)
        \<longrightarrow> evaluate (m\<lparr>current_view_count := v2\<rparr>) (ViewCountCondition N))
   \<and> (evaluate (metrics_of now a) (ViewCountCondition N)
        \<longrightarrow> evaluate (metrics_of later (fst (run cfg ops a))) (ViewCountCondition N))"
proof -
  have "N \<le> StoredArtwork.view_count a
      \<longrightarrow> N \<le> StoredArtwork.view_count (fst (run cfg ops a))"
    using run_view_count_mono [of a cfg ops] by simp
  then show ?thesis by (simp add: evaluate_view_count_def metrics_of_def)
qed

theorem view_count_condition_monotone_witness:
  "(100::int) \<le> 101
   \<and> evaluate \<lparr> current_time = 0, current_view_count = 100,
               current_comment_count = 0 \<rparr> (ViewCountCondition 100)
   \<and> evaluate \<lparr> current_time = 0, current_view_count = 101,
               current_comment_count = 0 \<rparr> (ViewCountCondition 100)
   \<and> evaluate (metrics_of 20 (fst (run example_config [ViewEvent 10, ViewEvent 20] hidden_artwork)))
       (ViewCountCondition 100)
   \<and> evaluate (metrics_of 40 (fst (run example_config example_operations
        (fst (run example_config [ViewEvent 10, ViewEvent 20] hidden_artwork)))))
       (ViewCountCondition 100)"
proof -
  have reached: "evaluate (metrics_of 20
      (fst (run example_config [ViewEvent 10, ViewEvent 20] hidden_artwork)))
      (ViewCountCondition 100)"
    by (simp add: evaluate_defs metrics_of_def transition_def conditions_met_def
        notify_view_milestone_def notify_revealed_def make_event_def
        hidden_artwork_def example_config_def Let_def)
  from view_count_condition_monotone
      [of "\<lparr> current_time = 0, current_view_count = 0, current_comment_count = 0 \<rparr>"
          100 100 101 20 "fst (run example_config [ViewEvent 10, ViewEvent 20] hidden_artwork)"
          40 example_config example_operations]
    reached
  show ?thesis by (simp add: evaluate_view_count_def del: run.simps step.simps)
qed

text \<open>
  The dashboard's view-count branch measures the same comparison. On the host that computes
  exactly, the completion percentage of a hidden artwork whose first condition is a
  view-count condition with a positive count is 100 exactly when \<^verbatim>\<open>evaluate\<close> is true
  for that count at the artwork's view count.
\<close>

lemma full_percentage_iff:
  assumes "0 < n"
  shows "min (100::rat) (of_int \<lfloor>of_int v / of_int n * (100::rat)\<rfloor>) = 100 \<longleftrightarrow> n \<le> v"
proof -
  have "min (100::rat) (of_int \<lfloor>of_int v / of_int n * (100::rat)\<rfloor>) = 100
      \<longleftrightarrow> (100::rat) \<le> of_int \<lfloor>of_int v / of_int n * (100::rat)\<rfloor>"
    by (rule min.absorb_iff1 [symmetric])
  also have "\<dots> \<longleftrightarrow> (100::int) \<le> \<lfloor>of_int v / of_int n * (100::rat)\<rfloor>"
    by linarith
  also have "\<dots> \<longleftrightarrow> (100::rat) \<le> of_int v / of_int n * 100"
    by (simp add: le_floor_iff)
  also have "\<dots> \<longleftrightarrow> n \<le> v"
    using assms by (simp add: le_divide_eq)
  finally show ?thesis .
qed

lemma dashboard_full_iff_evaluate:
  assumes "\<not> Artwork.is_revealed a"
    and "first_condition a = Some c"
    and "RevealCondition.condition_type c = ''view_count''"
    and "count (RevealCondition.condition_value c) = Some n"
    and "0 < n"
  shows "completionPercentage exact_host now a = Some 100
     \<longleftrightarrow> evaluate \<lparr> current_time = t, current_view_count = Artwork.view_count a,
                     current_comment_count = k \<rparr> (ViewCountCondition n)"
  using assms full_percentage_iff [OF assms(5), of "Artwork.view_count a"]
  by (simp add: completionPercentage_def js_of_def exact_host_def evaluate_view_count_def)

section \<open>Properties of the reveal transition\<close>

text \<open>
  C2. The revealed flag is monotonic over the operations on an artwork (view events, comment
  events, evaluator transitions and updates): a revealed artwork is revealed after every
  operation, so once the flag is true after some operations it is true after any further
  ones. The update request that the edit page sends carries the title, the description and
  the placeholder image of the form and nothing else, and applying an update leaves the
  flag as it is.
\<close>

theorem is_revealed_monotonic:
  "(StoredArtwork.is_revealed a \<longrightarrow> StoredArtwork.is_revealed (fst (step cfg op a)))
   \<and> (StoredArtwork.is_revealed (fst (run cfg ops a))
        \<longrightarrow> StoredArtwork.is_revealed (fst (run cfg (ops @ further) a)))
   \<and> snd (EditArtwork_handleSubmit artworkId resp values st) = [(artworkId, values)]
   \<and> StoredArtwork.is_revealed (apply_update values a) = StoredArtwork.is_revealed a"
proof -
  have "StoredArtwork.is_revealed a \<longrightarrow> StoredArtwork.is_revealed (fst (step cfg op a))"
    using step_revealed [of a cfg op] by blast
  moreover have "StoredArtwork.is_revealed (fst (run cfg ops a))
        \<longrightarrow> StoredArtwork.is_revealed (fst (run cfg (ops @ further) a))"
    using run_revealed [of "fst (run cfg ops a)" cfg further] by (simp add: run_append_fst)
  moreover have "snd (EditArtwork_handleSubmit artworkId resp values st) = [(artworkId, values)]"
    by (cases resp) (simp_all add: EditArtwork_handleSubmit_def Let_def)
  moreover have "StoredArtwork.is_revealed (apply_update values a) = StoredArtwork.is_revealed a"
    by (simp add: apply_update_def)
  ultimately show ?thesis by blast
qed

theorem is_revealed_monotonic_witness:
  "\<not> StoredArtwork.is_revealed hidden_artwork
   \<and> StoredArtwork.is_revealed (fst (run example_config [ViewEvent 10, ViewEvent 20] hidden_artwork))
   \<and> StoredArtwork.is_revealed
       (fst (step example_config (UpdateArtwork example_update)
          (fst (run example_config [ViewEvent 10, ViewEvent 20] hidden_artwork))))
   \<and> StoredArtwork.is_revealed
       (fst (run example_config
          ([ViewEvent 10, ViewEvent 20] @ [ViewEvent 30, UpdateArtwork example_update,
             CommentEvent 40, EvaluatorTransition 50]) hidden_artwork))
   \<and> snd (EditArtwork_handleSubmit 1 (Resolved ()) example_update idle_edit) =
       [(1, example_update)]"
proof -
  have hidden: "\<not> StoredArtwork.is_revealed hidden_artwork"
    by (simp add: hidden_artwork_def)
  from is_revealed_monotonic
      [of "fst (run example_config [ViewEvent 10, ViewEvent 20] hidden_artwork)"
          example_config "UpdateArtwork example_update" "[]" "[]" 1 "Resolved ()"
          example_update idle_edit]
    is_revealed_monotonic
      [where a = hidden_artwork and cfg = example_config
         and ops = "[ViewEvent 10, ViewEvent 20]"
         and further = "[ViewEvent 30, UpdateArtwork example_update, CommentEvent 40,
                         EvaluatorTransition 50]"]
    example_revealed hidden
  show ?thesis by (simp del: run.simps step.simps append.simps)
qed

text \<open>
  C3. Over any sequence of operations on an artwork at most one
  \<^verbatim>\<open>artwork_revealed\<close> event is emitted: exactly one when the artwork goes from hidden to
  revealed, none otherwise. Once the artwork is revealed, running the transition path again
  through any further operations emits no such event.
\<close>

theorem reveal_notified_at_most_once:
  "length (revealed_events (snd (run cfg ops a))) \<le> 1
   \<and> length (revealed_events (snd (run cfg ops a))) =
       (if \<not> StoredArtwork.is_revealed a \<and> StoredArtwork.is_revealed (fst (run cfg ops a))
        then 1 else 0)
   \<and> (StoredArtwork.is_revealed (fst (run cfg ops a))
        \<longrightarrow> revealed_events (snd (run cfg further (fst (run cfg ops a)))) = [])"
proof -
  have count: "length (revealed_events (snd (run cfg ops a))) =
       (if \<not> StoredArtwork.is_revealed a \<and> StoredArtwork.is_revealed (fst (run cfg ops a))
        then 1 else 0)"
    by (rule run_reveal_count)
  have "StoredArtwork.is_revealed (fst (run cfg ops a))
        \<longrightarrow> revealed_events (snd (run cfg further (fst (run cfg ops a)))) = []"
    using run_revealed [of "fst (run cfg ops a)" cfg further] by blast
  with count show ?thesis by simp
qed

text \<open>The artwork with 98 views and a view-count condition of 100: the second view reveals
  it and emits the one event; the third view and the comment emit none.\<close>

theorem reveal_notified_at_most_once_witness:
  "revealed_events (snd (run example_config [ViewEvent 10] hidden_artwork)) = []
   \<and> revealed_events (snd (run example_config example_operations hidden_artwork)) =
       [\<lparr> kind = artwork_revealed, event_artwork_id = 1, event_title = ''Mystery Landscape'',
          event_artist = ''artlover'', timestamp = 20 \<rparr>]
   \<and> length (revealed_events (snd (run example_config example_operations hidden_artwork))) \<le> 1
   \<and> StoredArtwork.is_revealed (fst (run example_config [ViewEvent 10, ViewEvent 20] hidden_artwork))
   \<and> revealed_events (snd (run example_config example_operations
        (fst (run example_config [ViewEvent 10, ViewEvent 20] hidden_artwork)))) = []"
proof -
  have first: "revealed_events (snd (run example_config [ViewEvent 10] hidden_artwork)) = []"
    by (simp add: example_run revealed_events_def)
  have events: "revealed_events (snd (run example_config example_operations hidden_artwork)) =
       [\<lparr> kind = artwork_revealed, event_artwork_id = 1, event_title = ''Mystery Landscape'',
          event_artist = ''artlover'', timestamp = 20 \<rparr>]"
    by (simp add: example_run revealed_events_def)
  from reveal_notified_at_most_once
      [where cfg = example_config and ops = example_operations and a = hidden_artwork]
    reveal_notified_at_most_once
      [where cfg = example_config and ops = "[ViewEvent 10, ViewEvent 20]"
         and a = hidden_artwork and further = example_operations]
    example_revealed first events
  show ?thesis by (simp del: run.simps step.simps)
qed

end
